theory Spec2Isabelle
  imports Complex_Main
begin

section \<open>Data model\<close>

text \<open>
  The two dashboards (\<^verbatim>\<open>pages/00_gemini\<close> and \<^verbatim>\<open>pages/01_claude\<close>) work on one
  pandas DataFrame of daily temperatures. A DataFrame is modelled as the list of its
  rows, in row order.

  A temperature cell is a float64 that may be NaN (the loader coerces unparseable cells
  with \<^verbatim>\<open>errors='coerce'\<close>). It is modelled as \<open>real option\<close>, \<open>None\<close> being NaN:
  comparisons with NaN are false and arithmetic on NaN gives NaN. Numbers are taken as
  reals: the rounding of float64 arithmetic is not modelled.
\<close>

type_synonym pyfloat = "real option"

record date =
  year :: int
  month :: int
  day :: int

text \<open>
  One row of the DataFrame. The Korean column names of the source are rendered as
  \<open>date_col\<close> (date), \<open>avg_temp\<close>, \<open>min_temp\<close> and \<open>max_temp\<close> (average, lowest and
  highest temperature). The derived columns month, day and year of the second dashboard
  are \<open>month (date_col r)\<close>, \<open>day (date_col r)\<close> and \<open>year (date_col r)\<close>.
\<close>

record row =
  date_col :: date
  avg_temp :: pyfloat
  min_temp :: pyfloat
  max_temp :: pyfloat

type_synonym dataframe = "row list"

text \<open>The three column names that \<^verbatim>\<open>temp_type\<close> ranges over.\<close>

datatype temp_type = AvgTemp | MinTemp | MaxTemp

fun col :: "temp_type \<Rightarrow> row \<Rightarrow> pyfloat" where
  "col AvgTemp r = avg_temp r"
| "col MinTemp r = min_temp r"
| "col MaxTemp r = max_temp r"

subsection \<open>Float operations with NaN\<close>

definition lt_f :: "pyfloat \<Rightarrow> pyfloat \<Rightarrow> bool" where
  "lt_f a b = (case (a, b) of (Some x, Some y) \<Rightarrow> x < y | _ \<Rightarrow> False)"

definition le_f :: "pyfloat \<Rightarrow> pyfloat \<Rightarrow> bool" where
  "le_f a b = (case (a, b) of (Some x, Some y) \<Rightarrow> x \<le> y | _ \<Rightarrow> False)"

definition sub_f :: "pyfloat \<Rightarrow> pyfloat \<Rightarrow> pyfloat" where
  "sub_f a b = (case (a, b) of (Some x, Some y) \<Rightarrow> Some (x - y) | _ \<Rightarrow> None)"

text \<open>\<^verbatim>\<open>Series.dropna()\<close>: the values that are not NaN, in order.\<close>

fun dropna :: "pyfloat list \<Rightarrow> real list" where
  "dropna [] = []"
| "dropna (None # ts) = dropna ts"
| "dropna (Some x # ts) = x # dropna ts"

section \<open>The fixed exam-date calendars\<close>

text \<open>
  Both dashboards embed the calendar as a dict literal from a year label to a date
  string. A dict literal iterates in the order it is written, so each is an association
  list in source order.
\<close>

definition suneung_dates :: "(int \<times> string) list" where
  "suneung_dates =
    [(1994, ''1994-11-23''), (1995, ''1995-11-22''), (1996, ''1996-11-13''), (1997, ''1997-11-19''),
     (1998, ''1998-11-18''), (1999, ''1999-11-17''), (2000, ''2000-11-15''), (2001, ''2001-11-07''),
     (2002, ''2002-11-06''), (2003, ''2003-11-05''), (2004, ''2004-11-17''), (2005, ''2005-11-23''),
     (2006, ''2006-11-16''), (2007, ''2007-11-15''), (2008, ''2008-11-13''), (2009, ''2009-11-12''),
     (2010, ''2010-11-18''), (2011, ''2011-11-10''), (2012, ''2012-11-08''), (2013, ''2013-11-07''),
     (2014, ''2014-11-13''), (2015, ''2015-11-12''), (2016, ''2016-11-17''),
     (2017, ''2017-11-23''),
     (2018, ''2018-11-15''), (2019, ''2019-11-14''),
     (2020, ''2020-12-03''),
     (2021, ''2021-11-18''), (2022, ''2022-11-17''), (2023, ''2023-11-16''), (2024, ''2024-11-14''),
     (2025, ''2025-11-13'')]"

definition SUNEUNG_DATES :: "(int \<times> string) list" where
  "SUNEUNG_DATES =
    [(1994, ''1993-11-16''),
     (1995, ''1994-11-23''),
     (1996, ''1995-11-22''),
     (1997, ''1996-11-13''),
     (1998, ''1997-11-19''),
     (1999, ''1998-11-18''),
     (2000, ''1999-11-17''),
     (2001, ''2000-11-15''),
     (2002, ''2001-11-07''),
     (2003, ''2002-11-06''),
     (2004, ''2003-11-05''),
     (2005, ''2004-11-17''),
     (2006, ''2005-11-23''),
     (2007, ''2006-11-16''),
     (2008, ''2007-11-15''),
     (2009, ''2008-11-13''),
     (2010, ''2009-11-12''),
     (2011, ''2010-11-18''),
     (2012, ''2011-11-10''),
     (2013, ''2012-11-08''),
     (2014, ''2013-11-07''),
     (2015, ''2014-11-13''),
     (2016, ''2015-11-12''),
     (2017, ''2016-11-17''),
     (2018, ''2017-11-23''),
     (2019, ''2018-11-15''),
     (2020, ''2019-11-14''),
     (2021, ''2020-12-03''),
     (2022, ''2021-11-18''),
     (2023, ''2022-11-17''),
     (2024, ''2023-11-16''),
     (2025, ''2024-11-14''),
     (2026, ''2025-11-13'')]"

section \<open>Historical Comparator\<close>

text \<open>
  The boolean mask \<^verbatim>\<open>df[(df[month] == month) & (df[day] == day)]\<close>: the rows whose
  derived month and day equal the arguments, in row order.
\<close>

definition same_day_data :: "dataframe \<Rightarrow> int \<Rightarrow> int \<Rightarrow> dataframe" where
  "same_day_data df m d = filter (\<lambda>r. month (date_col r) = m \<and> day (date_col r) = d) df"

subsection \<open>Column reductions\<close>

text \<open>
  \<^verbatim>\<open>Series.mean()\<close>, \<^verbatim>\<open>.std()\<close>, \<^verbatim>\<open>.max()\<close> and \<^verbatim>\<open>.min()\<close> skip NaN and give NaN
  when nothing is left; \<^verbatim>\<open>.std()\<close> is the sample standard deviation and needs two
  values.
  The mean and the standard deviation are the exact real quotients here; pandas rounds
  the sum and the quotient to float64, so its mean can differ from this one in the last
  bits (three values 0.7 have the float64 mean 0.6999999999999998). The general
  properties below use only that a mean is a number and how a value compares with the
  mean as reported; the instances evaluate means on data whose margins (1.2 and more)
  are far above that rounding.
\<close>

definition mean_col :: "pyfloat list \<Rightarrow> pyfloat" where
  "mean_col ts =
    (let xs = dropna ts in
     if xs = [] then None else Some (sum_list xs / real (length xs)))"

definition std_col :: "pyfloat list \<Rightarrow> pyfloat" where
  "std_col ts =
    (let xs = dropna ts; n = length xs in
     if n < 2 then None
     else let mu = sum_list xs / real n in
          Some (sqrt (sum_list (map (\<lambda>x. (x - mu)\<^sup>2) xs) / real (n - 1))))"

definition max_col :: "pyfloat list \<Rightarrow> pyfloat" where
  "max_col ts = (case dropna ts of [] \<Rightarrow> None | x # xs \<Rightarrow> Some (fold max xs x))"

definition min_col :: "pyfloat list \<Rightarrow> pyfloat" where
  "min_col ts = (case dropna ts of [] \<Rightarrow> None | x # xs \<Rightarrow> Some (fold min xs x))"

subsection \<open>The function \<^verbatim>\<open>get_historical_stats\<close>\<close>

text \<open>
  The dict that \<^verbatim>\<open>get_historical_stats\<close> returns, one field per key in the order of
  the source. The year range, a string \<^verbatim>\<open>"min~max"\<close> in the source, is kept as the pair
  of the two years. \<open>history\<close> is the filtered table sorted by year (rows of the same
  year are left in row order here; pandas does not fix their order).
\<close>

record stats =
  avg_mean :: pyfloat
  avg_std :: pyfloat
  avg_max :: pyfloat
  avg_min :: pyfloat
  min_mean :: pyfloat
  min_max :: pyfloat
  min_min :: pyfloat
  max_mean :: pyfloat
  max_max :: pyfloat
  max_min :: pyfloat
  data_count :: nat
  year_range :: "int \<times> int"
  history :: dataframe

definition get_historical_stats :: "dataframe \<Rightarrow> int \<Rightarrow> int \<Rightarrow> stats option" where
  "get_historical_stats df m d =
    (let same_day = same_day_data df m d in
     if length same_day = 0 then None
     else
       let years = map (\<lambda>r. year (date_col r)) same_day in
       Some \<lparr>avg_mean = mean_col (map avg_temp same_day),
             avg_std = std_col (map avg_temp same_day),
             avg_max = max_col (map avg_temp same_day),
             avg_min = min_col (map avg_temp same_day),
             min_mean = mean_col (map min_temp same_day),
             min_max = max_col (map min_temp same_day),
             min_min = min_col (map min_temp same_day),
             max_mean = mean_col (map max_temp same_day),
             max_max = max_col (map max_temp same_day),
             max_min = min_col (map max_temp same_day),
             data_count = length same_day,
             year_range = (fold min (tl years) (hd years), fold max (tl years) (hd years)),
             history = sort_key (\<lambda>r. year (date_col r)) same_day\<rparr>)"

text \<open>
  The keys of the dict that hold the historical minimum and maximum of a column
  (the column name followed by the suffix for lowest or highest).
\<close>

fun stats_min :: "temp_type \<Rightarrow> stats \<Rightarrow> pyfloat" where
  "stats_min AvgTemp st = avg_min st"
| "stats_min MinTemp st = min_min st"
| "stats_min MaxTemp st = max_min st"

fun stats_max :: "temp_type \<Rightarrow> stats \<Rightarrow> pyfloat" where
  "stats_max AvgTemp st = avg_max st"
| "stats_max MinTemp st = min_max st"
| "stats_max MaxTemp st = max_max st"

subsection \<open>The function \<^verbatim>\<open>calculate_percentile\<close>\<close>

text \<open>
  What \<^verbatim>\<open>calculate_percentile\<close> gives: Python's \<^verbatim>\<open>None\<close> (\<open>NotFound\<close>), a number, or
  no number at all because the quotient is \<open>0 / 0\<close> (\<open>Zero_Division\<close>: the count is
  divided by \<^verbatim>\<open>len(temps)\<close> with no check that it is positive; Python's own integers
  raise \<^verbatim>\<open>ZeroDivisionError\<close> there and numpy's integers warn and give NaN).
\<close>

datatype percentile_result = NotFound | Zero_Division | Percentile real

definition calculate_percentile ::
  "dataframe \<Rightarrow> int \<Rightarrow> int \<Rightarrow> pyfloat \<Rightarrow> temp_type \<Rightarrow> percentile_result" where
  "calculate_percentile df m d temp_value tt =
    (let same_day = same_day_data df m d in
     if length same_day = 0 then NotFound
     else
       let temps = dropna (map (col tt) same_day) in
       if length temps = 0 then Zero_Division
       else Percentile
         (real (length (filter (\<lambda>t. lt_f (Some t) temp_value) temps)) / real (length temps) * 100))"

section \<open>Fixed-Date Annotator\<close>

subsection \<open>Parsing the date strings\<close>

text \<open>
  \<^verbatim>\<open>pd.to_datetime(date_str)\<close>, for the one form the calendar literals have: four
  digits, a hyphen, two digits, a hyphen, two digits, naming a day that exists in a year
  a pandas timestamp can hold. \<open>None\<close> stands for every other string: pandas raises on
  a string that names no date, and strings in other forms are outside this development.
\<close>

definition digit :: "char \<Rightarrow> nat option" where
  "digit c = (let n = (of_char c :: nat) in if 48 \<le> n \<and> n \<le> 57 then Some (n - 48) else None)"

fun digits :: "nat \<Rightarrow> string \<Rightarrow> nat option" where
  "digits acc [] = Some acc"
| "digits acc (c # cs) = (case digit c of None \<Rightarrow> None | Some k \<Rightarrow> digits (10 * acc + k) cs)"

definition is_leap :: "nat \<Rightarrow> bool" where
  "is_leap y \<longleftrightarrow> y mod 4 = 0 \<and> (y mod 100 \<noteq> 0 \<or> y mod 400 = 0)"

definition days_in_month :: "nat \<Rightarrow> nat \<Rightarrow> nat" where
  "days_in_month y m =
    (if m = 2 then (if is_leap y then 29 else 28)
     else if m = 4 \<or> m = 6 \<or> m = 9 \<or> m = 11 then 30
     else 31)"

fun to_datetime :: "string \<Rightarrow> date option" where
  "to_datetime [y1, y2, y3, y4, s1, m1, m2, s2, d1, d2] =
    (if s1 = CHR ''-'' \<and> s2 = CHR ''-'' then
       (case (digits 0 [y1, y2, y3, y4], digits 0 [m1, m2], digits 0 [d1, d2]) of
          (Some y, Some m, Some d) \<Rightarrow>
            if 1678 \<le> y \<and> y \<le> 2261 \<and> 1 \<le> m \<and> m \<le> 12 \<and> 1 \<le> d \<and> d \<le> days_in_month y m
            then Some \<lparr>year = int y, month = int m, day = int d\<rparr>
            else None
        | _ \<Rightarrow> None)
     else None)"
| "to_datetime _ = None"

subsection \<open>The exam-day table of the second dashboard\<close>

text \<open>
  One dict appended to \<^verbatim>\<open>suneung_data\<close>, its keys in source order: the label
  (\<open>label_year\<close>, printed with a suffix in the source), the date string, the three
  temperatures of the day, the historical mean, the deviation, the percentile and the
  year. The mean and the deviation are Python's \<^verbatim>\<open>None\<close> (here \<open>None\<close>) when there
  are no statistics, and the percentile is then \<open>NotFound\<close>.
\<close>

record entry =
  label_year :: int
  exam_date :: string
  e_avg_temp :: pyfloat
  e_min_temp :: pyfloat
  e_max_temp :: pyfloat
  e_hist_mean :: "pyfloat option"
  e_deviation :: "pyfloat option"
  e_percentile :: percentile_result
  e_year :: int

text \<open>\<^verbatim>\<open>df[df[date] == date]\<close>: the rows of exactly that date.\<close>

definition day_data :: "dataframe \<Rightarrow> date \<Rightarrow> dataframe" where
  "day_data df dt = filter (\<lambda>r. date_col r = dt) df"

text \<open>The body of the loop for a calendar entry that has a row \<^verbatim>\<open>day_data.iloc[0]\<close>.\<close>

definition suneung_entry :: "dataframe \<Rightarrow> int \<Rightarrow> string \<Rightarrow> date \<Rightarrow> row \<Rightarrow> entry" where
  "suneung_entry df yr date_str dt r =
    (let m = month dt; d = day dt;
         stats = get_historical_stats df m d;
         avg_pct = (if stats \<noteq> None then calculate_percentile df m d (avg_temp r) AvgTemp
                    else NotFound)
     in \<lparr>label_year = yr,
         exam_date = date_str,
         e_avg_temp = avg_temp r,
         e_min_temp = min_temp r,
         e_max_temp = max_temp r,
         e_hist_mean = (case stats of Some st \<Rightarrow> Some (avg_mean st) | None \<Rightarrow> None),
         e_deviation = (case stats of Some st \<Rightarrow> Some (sub_f (avg_temp r) (avg_mean st)) | None \<Rightarrow> None),
         e_percentile = avg_pct,
         e_year = yr\<rparr>)"

datatype error = DateParseError string

text \<open>
  The loop over the calendar in iteration order. An entry whose date has no row is
  skipped; the first date string that does not parse ends the loop with the error.
\<close>

fun suneung_data :: "dataframe \<Rightarrow> (int \<times> string) list \<Rightarrow> error + entry list" where
  "suneung_data df [] = Inr []"
| "suneung_data df ((yr, date_str) # rest) =
    (case to_datetime date_str of
       None \<Rightarrow> Inl (DateParseError date_str)
     | Some dt \<Rightarrow>
        (case day_data df dt of
           [] \<Rightarrow> suneung_data df rest
         | r # _ \<Rightarrow>
            (case suneung_data df rest of
               Inl e \<Rightarrow> Inl e
             | Inr es \<Rightarrow> Inr (suneung_entry df yr date_str dt r # es))))"

section \<open>The rank of the first dashboard\<close>

text \<open>
  \<^verbatim>\<open>history_df\<close> is the same month/day filter, and
  \<^verbatim>\<open>history_df[avg].rank(ascending=False, method='min')\<close> ranks its column of average
  temperatures: pandas orders the values that are not NaN from the highest down, numbers
  the positions from 1, and gives every value of a group of equal values the lowest
  position of the group; a NaN keeps NaN as its rank.
\<close>

definition history_df :: "dataframe \<Rightarrow> int \<Rightarrow> int \<Rightarrow> dataframe" where
  "history_df df sel_month sel_day =
    filter (\<lambda>r. month (date_col r) = sel_month \<and> day (date_col r) = sel_day) df"

fun first_position :: "real list \<Rightarrow> real \<Rightarrow> nat" where
  "first_position [] x = 0"
| "first_position (y # ys) x = (if y = x then 0 else Suc (first_position ys x))"

definition rank_desc_min :: "pyfloat list \<Rightarrow> pyfloat list" where
  "rank_desc_min ts =
    (let ordered = rev (sort (dropna ts)) in
     map (\<lambda>t. case t of None \<Rightarrow> None | Some x \<Rightarrow> Some (real (first_position ordered x + 1))) ts)"

definition rank :: "dataframe \<Rightarrow> int \<Rightarrow> int \<Rightarrow> pyfloat list" where
  "rank df sel_month sel_day = rank_desc_min (map avg_temp (history_df df sel_month sel_day))"

section \<open>Band classification\<close>

text \<open>
  \<^verbatim>\<open>get_temperature_description\<close> returns a pair of a Korean description and a colour
  name. The seven descriptions are rendered as the constructors of \<open>band\<close>, in the order
  of the source's branches: record cold, very cold, somewhat cold, normal, somewhat
  warm, very warm, record heat. The colour names are kept as strings.
\<close>

datatype band =
  Record_Cold | Very_Cold | Somewhat_Cold | Normal | Somewhat_Warm | Very_Warm | Record_Heat

definition get_temperature_description :: "pyfloat \<Rightarrow> band \<times> string" where
  "get_temperature_description percentile =
    (if le_f percentile (Some 5) then (Record_Cold, ''blue'')
     else if le_f percentile (Some 15) then (Very_Cold, ''lightblue'')
     else if le_f percentile (Some 30) then (Somewhat_Cold, ''cyan'')
     else if le_f percentile (Some 70) then (Normal, ''gray'')
     else if le_f percentile (Some 85) then (Somewhat_Warm, ''orange'')
     else if le_f percentile (Some 95) then (Very_Warm, ''orangered'')
     else (Record_Heat, ''red''))"

section \<open>Example data\<close>

definition mk_row :: "int \<Rightarrow> int \<Rightarrow> int \<Rightarrow> pyfloat \<Rightarrow> pyfloat \<Rightarrow> pyfloat \<Rightarrow> row" where
  "mk_row y m d a lo hi =
    \<lparr>date_col = \<lparr>year = y, month = m, day = d\<rparr>, avg_temp = a, min_temp = lo, max_temp = hi\<rparr>"

text \<open>
  Five years of 13 November with the average temperatures -2.0, 1.0, 3.0, -1.0 and 0.5,
  and one row of another day.
\<close>

definition nov13_df :: dataframe where
  "nov13_df =
    [mk_row 2019 11 13 (Some (-2)) (Some (-6)) (Some 3),
     mk_row 2020 11 13 (Some 1) (Some (-3)) (Some 6),
     mk_row 2020 11 14 (Some 7) (Some 2) (Some 12),
     mk_row 2021 11 13 (Some 3) (Some (-1)) (Some 8),
     mk_row 2022 11 13 (Some (-1)) (Some (-4)) (Some 2),
     mk_row 2023 11 13 (Some (1/2)) (Some (-2)) (Some 4)]"

text \<open>Two years of 1 January whose average temperature is missing.\<close>

definition missing_df :: dataframe where
  "missing_df =
    [mk_row 2020 1 1 None (Some (-5)) (Some 2),
     mk_row 2020 1 2 (Some 1) (Some (-3)) (Some 4),
     mk_row 2021 1 1 None (Some (-7)) None]"

text \<open>
  Five years of 14 November with the average temperatures 0, 0, 0, 10 and 1: most
  years are cold and one is very warm.
\<close>

definition skewed_df :: dataframe where
  "skewed_df =
    [mk_row 2020 11 14 (Some 0) (Some (-4)) (Some 5),
     mk_row 2021 11 14 (Some 0) (Some (-3)) (Some 4),
     mk_row 2022 11 14 (Some 0) (Some (-5)) (Some 6),
     mk_row 2023 11 14 (Some 10) (Some 6) (Some 15),
     mk_row 2024 11 14 (Some 1) (Some (-2)) (Some 5)]"

section \<open>Properties\<close>

subsection \<open>Band classification\<close>

lemma le_f_Some [simp]: "le_f (Some x) (Some y) \<longleftrightarrow> x \<le> y"
  by (simp add: le_f_def)

lemma lt_f_Some [simp]: "lt_f (Some x) (Some y) \<longleftrightarrow> x < y"
  by (simp add: lt_f_def)

text \<open>
  C3. The band classifier sends every percentile to exactly one of seven bands, each the
  half-open interval ending (inclusively) at 5, 15, 30, 70, 85, 95, the last band being
  everything above 95: the band of \<open>p\<close> is decided by these intervals, which are
  pairwise disjoint and cover the line, hence \<open>[0, 100]\<close>. Percentile 5.0 falls in the
  first band and 5.01 in the second.
\<close>

theorem band_partition:
  "(fst (get_temperature_description (Some p)) = Record_Cold \<longleftrightarrow> p \<le> 5) \<and>
   (fst (get_temperature_description (Some p)) = Very_Cold \<longleftrightarrow> 5 < p \<and> p \<le> 15) \<and>
   (fst (get_temperature_description (Some p)) = Somewhat_Cold \<longleftrightarrow> 15 < p \<and> p \<le> 30) \<and>
   (fst (get_temperature_description (Some p)) = Normal \<longleftrightarrow> 30 < p \<and> p \<le> 70) \<and>
   (fst (get_temperature_description (Some p)) = Somewhat_Warm \<longleftrightarrow> 70 < p \<and> p \<le> 85) \<and>
   (fst (get_temperature_description (Some p)) = Very_Warm \<longleftrightarrow> 85 < p \<and> p \<le> 95) \<and>
   (fst (get_temperature_description (Some p)) = Record_Heat \<longleftrightarrow> 95 < p) \<and>
   get_temperature_description (Some 5) = (Record_Cold, ''blue'') \<and>
   get_temperature_description (Some (501 / 100)) = (Very_Cold, ''lightblue'')"
  by (simp add: get_temperature_description_def)

subsection \<open>The two calendars\<close>

text \<open>
  C9. The calendars of the two dashboards are not equal. Label 1994 is in both, the
  first dashboard gives it 1994-11-23 and the second 1993-11-16. The divergence is a
  shift of the labels by one year: after its first entry, the second calendar lists the
  dates of the first one in the same order, each under the label one year later.
\<close>

theorem calendars_differ:
  "map_of suneung_dates 1994 = Some ''1994-11-23'' \<and>
   map_of SUNEUNG_DATES 1994 = Some ''1993-11-16'' \<and>
   map_of suneung_dates 1994 \<noteq> map_of SUNEUNG_DATES 1994 \<and>
   suneung_dates \<noteq> SUNEUNG_DATES \<and>
   map snd (tl SUNEUNG_DATES) = map snd suneung_dates \<and>
   map fst (tl SUNEUNG_DATES) = map (\<lambda>y. y + 1) (map fst suneung_dates)"
  by (simp add: suneung_dates_def SUNEUNG_DATES_def)

subsection \<open>Facts about the same-day filter and the column reductions\<close>

lemma dropna_empty: "dropna ts = [] \<longleftrightarrow> (\<forall>t\<in>set ts. t = None)"
  by (induction ts rule: dropna.induct) auto

lemma same_day_data_empty:
  "same_day_data df m d = [] \<longleftrightarrow> (\<forall>r\<in>set df. \<not> (month (date_col r) = m \<and> day (date_col r) = d))"
  by (auto simp: same_day_data_def filter_empty_conv)

lemma set_same_day_data:
  "set (same_day_data df m d) = {r \<in> set df. month (date_col r) = m \<and> day (date_col r) = d}"
  by (auto simp: same_day_data_def)

lemma temps_nonempty:
  "dropna (map (col tt) (same_day_data df m d)) \<noteq> [] \<longleftrightarrow>
     (\<exists>r\<in>set df. month (date_col r) = m \<and> day (date_col r) = d \<and> col tt r \<noteq> None)"
  unfolding dropna_empty by (auto simp: set_same_day_data)

lemma calculate_percentile_NotFound:
  "calculate_percentile df m d v tt = NotFound \<longleftrightarrow> same_day_data df m d = []"
  by (simp add: calculate_percentile_def Let_def)

lemma calculate_percentile_Zero_Division:
  "calculate_percentile df m d v tt = Zero_Division \<longleftrightarrow>
     same_day_data df m d \<noteq> [] \<and> dropna (map (col tt) (same_day_data df m d)) = []"
  by (simp add: calculate_percentile_def Let_def)

lemma calculate_percentile_number:
  "(\<exists>p. calculate_percentile df m d v tt = Percentile p) \<longleftrightarrow>
     dropna (map (col tt) (same_day_data df m d)) \<noteq> []"
  by (auto simp: calculate_percentile_def Let_def)

lemma get_historical_stats_None:
  "get_historical_stats df m d = None \<longleftrightarrow> same_day_data df m d = []"
  by (simp add: get_historical_stats_def Let_def)

lemma calculate_percentile_Percentile:
  assumes "dropna (map (col tt) (same_day_data df m d)) \<noteq> []"
  shows "calculate_percentile df m d v tt =
    Percentile (real (length (filter (\<lambda>t. lt_f (Some t) v) (dropna (map (col tt) (same_day_data df m d)))))
      / real (length (dropna (map (col tt) (same_day_data df m d)))) * 100)"
proof -
  from assms have "same_day_data df m d \<noteq> []" by auto
  with assms show ?thesis by (simp add: calculate_percentile_def Let_def)
qed

lemma length_dropna_filter:
  "length (dropna (map f rs)) = length (filter (\<lambda>r. f r \<noteq> None) rs)"
  by (induction rs) (auto split: option.splits)

lemma length_filter_dropna:
  "length (filter P (dropna (map f rs))) =
   length (filter (\<lambda>r. case f r of None \<Rightarrow> False | Some x \<Rightarrow> P x) rs)"
  by (induction rs) (auto split: option.splits)

lemma ratio_bounds:
  assumes "k \<le> n" "0 < n"
  shows "0 \<le> real k / real n * 100 \<and> real k / real n * 100 \<le> 100"
  using assms by (simp add: divide_le_eq)

lemma filter_lt_mono:
  fixes v1 v2 :: real
  assumes "v1 \<le> v2"
  shows "length (filter (\<lambda>t. lt_f (Some t) (Some v1)) xs)
       \<le> length (filter (\<lambda>t. lt_f (Some t) (Some v2)) xs)"
  using assms by (induction xs) auto

lemma fold_min_le:
  fixes x :: real
  shows "y \<in> set (x # xs) \<Longrightarrow> fold min xs x \<le> y"
  unfolding Min.set_eq_fold [symmetric] by (rule Min_le) simp_all

lemma fold_max_ge:
  fixes x :: real
  shows "y \<in> set (x # xs) \<Longrightarrow> y \<le> fold max xs x"
  unfolding Max.set_eq_fold [symmetric] by (rule Max_ge) simp_all

lemma min_col_le:
  assumes "min_col ts = Some v" and "t \<in> set (dropna ts)"
  shows "v \<le> t"
  using assms fold_min_le by (auto simp: min_col_def split: list.splits)

lemma max_col_ge:
  assumes "max_col ts = Some v" and "t \<in> set (dropna ts)"
  shows "t \<le> v"
  using assms fold_max_ge by (auto simp: max_col_def split: list.splits)

lemma min_col_Some_nonempty: "min_col ts = Some v \<Longrightarrow> dropna ts \<noteq> []"
  by (auto simp: min_col_def)

lemma max_col_Some_nonempty: "max_col ts = Some v \<Longrightarrow> dropna ts \<noteq> []"
  by (auto simp: max_col_def)

lemma col_eqs: "col AvgTemp = avg_temp" "col MinTemp = min_temp" "col MaxTemp = max_temp"
  by (rule ext, simp)+

lemma stats_min_eq:
  "get_historical_stats df m d = Some st \<Longrightarrow>
     stats_min tt st = min_col (map (col tt) (same_day_data df m d))"
  by (cases tt) (auto simp: get_historical_stats_def Let_def col_eqs split: if_splits)

lemma stats_max_eq:
  "get_historical_stats df m d = Some st \<Longrightarrow>
     stats_max tt st = max_col (map (col tt) (same_day_data df m d))"
  by (cases tt) (auto simp: get_historical_stats_def Let_def col_eqs split: if_splits)

lemma dropna_filter_notna:
  "dropna (map (col tt) (same_day_data (filter (\<lambda>r. col tt r \<noteq> None) df) m d)) =
   dropna (map (col tt) (same_day_data df m d))"
  by (induction df) (auto simp: same_day_data_def)

subsection \<open>The percentile\<close>

text \<open>
  C1. When some record of the month and day has a value of the queried column that is not
  missing, \<open>calculate_percentile\<close> returns a number: the count of records of that month
  and day whose value is not missing and strictly below the query value, divided by the
  count of records of that month and day whose value is not missing, times 100. The
  number lies in \<open>[0, 100]\<close>. A value equal to the query value is not counted, the
  comparison being strict. On the five values -2.0, 1.0, 3.0, -1.0, 0.5 of one day the
  percentile of 1.0 is 60, as the instance after the theorem shows.
\<close>

theorem percentile_formula:
  assumes "\<exists>r\<in>set df. month (date_col r) = m \<and> day (date_col r) = d \<and> col tt r \<noteq> None"
  shows "\<exists>p. calculate_percentile df m d (Some v) tt = Percentile p \<and>
     p = real (length (filter (\<lambda>r. month (date_col r) = m \<and> day (date_col r) = d \<and>
                                    lt_f (col tt r) (Some v)) df))
         / real (length (filter (\<lambda>r. month (date_col r) = m \<and> day (date_col r) = d \<and>
                                    col tt r \<noteq> None) df)) * 100 \<and>
     0 \<le> p \<and> p \<le> 100"
proof -
  let ?sd = "same_day_data df m d"
  let ?temps = "dropna (map (col tt) ?sd)"
  let ?k = "length (filter (\<lambda>t. lt_f (Some t) (Some v)) ?temps)"
  have ne: "?temps \<noteq> []" using assms by (simp add: temps_nonempty)
  have calc: "calculate_percentile df m d (Some v) tt = Percentile (real ?k / real (length ?temps) * 100)"
    by (rule calculate_percentile_Percentile [OF ne])
  have k: "?k = length (filter (\<lambda>r. month (date_col r) = m \<and> day (date_col r) = d \<and>
                                    lt_f (col tt r) (Some v)) df)"
    unfolding length_filter_dropna same_day_data_def filter_filter
    by (rule arg_cong [where f = length], rule filter_cong) (auto simp: lt_f_def split: option.splits)
  have n: "length ?temps = length (filter (\<lambda>r. month (date_col r) = m \<and> day (date_col r) = d \<and>
                                    col tt r \<noteq> None) df)"
    unfolding length_dropna_filter same_day_data_def filter_filter
    by (rule arg_cong [where f = length], rule filter_cong) auto
  have "?k \<le> length ?temps" by simp
  moreover have "0 < length ?temps" using ne by simp
  ultimately have "0 \<le> real ?k / real (length ?temps) * 100 \<and> real ?k / real (length ?temps) * 100 \<le> 100"
    by (rule ratio_bounds)
  with calc show ?thesis unfolding k n by blast
qed

theorem percentile_formula_witness:
  "calculate_percentile nov13_df 11 13 (Some 1) AvgTemp = Percentile 60"
  using percentile_formula [of nov13_df 11 13 AvgTemp 1]
  by (simp add: nov13_df_def mk_row_def del: not_None_eq)

text \<open>
  C2. When no record has the month and the day, \<open>get_historical_stats\<close> returns \<open>None\<close>
  and \<open>calculate_percentile\<close> returns \<open>NotFound\<close>, and each does so in that case only:
  the two functions report a missing distribution under the same condition, as a value
  and not as an error.
\<close>

theorem no_match_NotFound:
  "(get_historical_stats df m d = None \<longleftrightarrow>
      (\<forall>r\<in>set df. \<not> (month (date_col r) = m \<and> day (date_col r) = d))) \<and>
   (calculate_percentile df m d v tt = NotFound \<longleftrightarrow>
      (\<forall>r\<in>set df. \<not> (month (date_col r) = m \<and> day (date_col r) = d)))"
  unfolding get_historical_stats_None calculate_percentile_NotFound same_day_data_empty by simp

theorem no_match_NotFound_witness:
  "get_historical_stats nov13_df 2 29 = None \<and>
   calculate_percentile nov13_df 2 29 (Some 0) AvgTemp = NotFound"
  using no_match_NotFound [of nov13_df 2 29 "Some 0" AvgTemp]
  by (simp add: nov13_df_def mk_row_def)

text \<open>
  C5. For a month and day with at least one value of the column that is not missing,
  the percentile does not decrease when the query value grows: for \<open>v1 \<le> v2\<close> both
  queries return numbers, and the one of \<open>v1\<close> is at most the one of \<open>v2\<close>.
\<close>

theorem percentile_monotone:
  assumes "\<exists>r\<in>set df. month (date_col r) = m \<and> day (date_col r) = d \<and> col tt r \<noteq> None"
    and "v1 \<le> v2"
  shows "\<exists>p1 p2. calculate_percentile df m d (Some v1) tt = Percentile p1 \<and>
                 calculate_percentile df m d (Some v2) tt = Percentile p2 \<and> p1 \<le> p2"
proof -
  let ?temps = "dropna (map (col tt) (same_day_data df m d))"
  have ne: "?temps \<noteq> []" using assms(1) by (simp add: temps_nonempty)
  have "real (length (filter (\<lambda>t. lt_f (Some t) (Some v1)) ?temps)) / real (length ?temps) * 100
      \<le> real (length (filter (\<lambda>t. lt_f (Some t) (Some v2)) ?temps)) / real (length ?temps) * 100"
    using filter_lt_mono [OF assms(2), of ?temps] ne by (simp add: divide_right_mono)
  then show ?thesis
    unfolding calculate_percentile_Percentile [OF ne] by blast
qed

theorem percentile_monotone_witness:
  "calculate_percentile nov13_df 11 13 (Some (1/2)) AvgTemp = Percentile 40 \<and>
   calculate_percentile nov13_df 11 13 (Some 3) AvgTemp = Percentile 80"
  using percentile_monotone [of nov13_df 11 13 AvgTemp "1/2" 3]
  by (simp add: nov13_df_def mk_row_def calculate_percentile_def same_day_data_def del: not_None_eq)

text \<open>
  C6. Let the statistics of a month and day exist. If the historical minimum of a column
  is a number, the percentile of that very value is 0; if the historical maximum is a
  number, the percentile of every value strictly above it is 100.
\<close>

theorem percentile_extremes:
  assumes "get_historical_stats df m d = Some st"
  shows "(stats_min tt st = Some v \<longrightarrow> calculate_percentile df m d (Some v) tt = Percentile 0) \<and>
         (stats_max tt st = Some mx \<and> mx < w \<longrightarrow>
            calculate_percentile df m d (Some w) tt = Percentile 100)"
proof (intro conjI impI)
  let ?ts = "map (col tt) (same_day_data df m d)"
  assume "stats_min tt st = Some v"
  then have mn: "min_col ?ts = Some v" using stats_min_eq [OF assms] by simp
  have ne: "dropna ?ts \<noteq> []" by (rule min_col_Some_nonempty [OF mn])
  have "filter (\<lambda>t. lt_f (Some t) (Some v)) (dropna ?ts) = []"
    using min_col_le [OF mn] by (fastforce simp: filter_empty_conv)
  then show "calculate_percentile df m d (Some v) tt = Percentile 0"
    unfolding calculate_percentile_Percentile [OF ne] by simp
next
  let ?ts = "map (col tt) (same_day_data df m d)"
  assume "stats_max tt st = Some mx \<and> mx < w"
  then have mx: "max_col ?ts = Some mx" and lt: "mx < w"
    using stats_max_eq [OF assms] by simp_all
  have ne: "dropna ?ts \<noteq> []" by (rule max_col_Some_nonempty [OF mx])
  have "filter (\<lambda>t. lt_f (Some t) (Some w)) (dropna ?ts) = dropna ?ts"
    using max_col_ge [OF mx] lt by (fastforce simp: filter_id_conv)
  then show "calculate_percentile df m d (Some w) tt = Percentile 100"
    unfolding calculate_percentile_Percentile [OF ne] using ne by simp
qed

theorem percentile_extremes_witness:
  "calculate_percentile nov13_df 11 13 (Some (-2)) AvgTemp = Percentile 0 \<and>
   calculate_percentile nov13_df 11 13 (Some 4) AvgTemp = Percentile 100"
proof -
  obtain st where st: "get_historical_stats nov13_df 11 13 = Some st"
    by (simp add: get_historical_stats_def same_day_data_def nov13_df_def mk_row_def)
  have mn: "stats_min AvgTemp st = Some (-2)"
    using st by (auto simp: get_historical_stats_def same_day_data_def nov13_df_def mk_row_def min_col_def)
  have mx: "stats_max AvgTemp st = Some 3"
    using st by (auto simp: get_historical_stats_def same_day_data_def nov13_df_def mk_row_def max_col_def)
  from percentile_extremes [OF st, of AvgTemp "-2" 3 4] mn mx show ?thesis by simp
qed

text \<open>
  C10. \<open>calculate_percentile\<close> guards the case of no record of the month and day, and
  nothing else: it returns \<open>NotFound\<close> exactly when no record matches; when records
  match and the queried column is missing in every one of them, the count is divided by
  the length 0 of the values left (\<open>Zero_Division\<close>); it returns a number exactly when
  some matching record has a value that is not missing. Missing values are left out of
  the count and of the total: in that last case the result is the one of the data
  without the records whose value is missing.
\<close>

theorem unguarded_division:
  "(calculate_percentile df m d v tt = NotFound \<longleftrightarrow> same_day_data df m d = []) \<and>
   (calculate_percentile df m d v tt = Zero_Division \<longleftrightarrow>
      same_day_data df m d \<noteq> [] \<and> (\<forall>r\<in>set (same_day_data df m d). col tt r = None)) \<and>
   ((\<exists>p. calculate_percentile df m d v tt = Percentile p) \<longleftrightarrow>
      (\<exists>r\<in>set (same_day_data df m d). col tt r \<noteq> None)) \<and>
   ((\<exists>r\<in>set (same_day_data df m d). col tt r \<noteq> None) \<longrightarrow>
      calculate_percentile (filter (\<lambda>r. col tt r \<noteq> None) df) m d v tt =
      calculate_percentile df m d v tt)"
proof (intro conjI impI)
  show "calculate_percentile df m d v tt = NotFound \<longleftrightarrow> same_day_data df m d = []"
    by (rule calculate_percentile_NotFound)
  show "calculate_percentile df m d v tt = Zero_Division \<longleftrightarrow>
      same_day_data df m d \<noteq> [] \<and> (\<forall>r\<in>set (same_day_data df m d). col tt r = None)"
    unfolding calculate_percentile_Zero_Division dropna_empty by simp
  show "(\<exists>p. calculate_percentile df m d v tt = Percentile p) \<longleftrightarrow>
      (\<exists>r\<in>set (same_day_data df m d). col tt r \<noteq> None)"
    unfolding calculate_percentile_number dropna_empty by simp
next
  assume "\<exists>r\<in>set (same_day_data df m d). col tt r \<noteq> None"
  then have ne: "dropna (map (col tt) (same_day_data df m d)) \<noteq> []"
    unfolding dropna_empty by simp
  have ne': "dropna (map (col tt) (same_day_data (filter (\<lambda>r. col tt r \<noteq> None) df) m d)) \<noteq> []"
    unfolding dropna_filter_notna by (rule ne)
  show "calculate_percentile (filter (\<lambda>r. col tt r \<noteq> None) df) m d v tt =
      calculate_percentile df m d v tt"
    unfolding calculate_percentile_Percentile [OF ne] calculate_percentile_Percentile [OF ne']
      dropna_filter_notna ..
qed

theorem unguarded_division_witness:
  "calculate_percentile missing_df 1 1 (Some 0) AvgTemp = Zero_Division \<and>
   calculate_percentile missing_df 1 1 (Some 0) MinTemp = Percentile 100 \<and>
   calculate_percentile missing_df 1 1 (Some 0) MaxTemp = Percentile 0 \<and>
   calculate_percentile missing_df 2 29 (Some 0) AvgTemp = NotFound"
  using unguarded_division [of missing_df 1 1 "Some 0" AvgTemp]
  by (simp add: missing_df_def mk_row_def same_day_data_def calculate_percentile_def)

subsection \<open>The exam-day table\<close>

lemma set_dropna: "set (dropna ts) = {x. Some x \<in> set ts}"
  by (induction ts rule: dropna.induct) auto

lemma day_data_empty: "day_data df dt = [] \<longleftrightarrow> \<not> (\<exists>r\<in>set df. date_col r = dt)"
  by (auto simp: day_data_def filter_empty_conv)

lemma suneung_entry_key [simp]:
  "label_year (suneung_entry df yr ds dt r) = yr" "exam_date (suneung_entry df yr ds dt r) = ds"
  by (simp_all add: suneung_entry_def Let_def)

lemma suneung_data_keys:
  "suneung_data df cal = Inr es \<Longrightarrow>
     map (\<lambda>e. (label_year e, exam_date e)) es =
     filter (\<lambda>(y, s). \<exists>r\<in>set df. to_datetime s = Some (date_col r)) cal"
proof (induction cal arbitrary: es)
  case Nil
  then show ?case by simp
next
  case (Cons c cal)
  obtain yr ds where c: "c = (yr, ds)" by (cases c)
  from Cons.prems c obtain dt where dt: "to_datetime ds = Some dt"
    by (auto split: option.splits)
  show ?case
  proof (cases "day_data df dt")
    case Nil
    then have "\<not> (\<exists>r\<in>set df. to_datetime ds = Some (date_col r))"
      using dt by (auto simp: day_data_empty)
    moreover from Nil Cons.prems c dt have "suneung_data df cal = Inr es" by simp
    ultimately show ?thesis using Cons.IH c by simp
  next
    case (Cons r rs)
    then have "day_data df dt \<noteq> []" by simp
    then have ex: "\<exists>r\<in>set df. to_datetime ds = Some (date_col r)"
      using dt by (auto simp: day_data_empty)
    from Cons Cons.prems c dt obtain es' where
      es': "suneung_data df cal = Inr es'" and es: "es = suneung_entry df yr ds dt r # es'"
      by (auto split: sum.splits)
    from Cons.IH [OF es'] ex show ?thesis by (simp add: c es)
  qed
qed

lemma suneung_data_total:
  "\<forall>(y, s)\<in>set cal. to_datetime s \<noteq> None \<Longrightarrow> \<exists>es. suneung_data df cal = Inr es"
proof (induction cal)
  case Nil
  then show ?case by simp
next
  case (Cons c cal)
  obtain yr ds where c: "c = (yr, ds)" by (cases c)
  from Cons.prems c obtain dt where dt: "to_datetime ds = Some dt" by auto
  from Cons obtain es where es: "suneung_data df cal = Inr es" by auto
  show ?case by (cases "day_data df dt") (simp_all add: c dt es)
qed

lemma embedded_calendars_parse:
  "list_all (\<lambda>(y, s). to_datetime s \<noteq> None) SUNEUNG_DATES"
  "list_all (\<lambda>(y, s). to_datetime s \<noteq> None) suneung_dates"
  by (simp_all add: SUNEUNG_DATES_def suneung_dates_def digit_def days_in_month_def)

text \<open>
  C4. For a calendar whose date strings all parse, the loop returns a table with one
  entry for each calendar entry whose date is the date of some record, in the order of
  the calendar, carrying that entry's label and date string. An entry whose date has no
  record leaves nothing in the table: no error and no row. The length of the table is
  the length of the calendar minus the number of entries without a record.
\<close>

theorem annotator_skips_unmatched:
  assumes "\<forall>(y, s)\<in>set cal. to_datetime s \<noteq> None"
  shows "\<exists>es. suneung_data df cal = Inr es \<and>
     map (\<lambda>e. (label_year e, exam_date e)) es =
       filter (\<lambda>(y, s). \<exists>r\<in>set df. to_datetime s = Some (date_col r)) cal \<and>
     length es = length cal -
       length (filter (\<lambda>(y, s). \<not> (\<exists>r\<in>set df. to_datetime s = Some (date_col r))) cal)"
proof -
  from suneung_data_total [OF assms] obtain es where es: "suneung_data df cal = Inr es" ..
  let ?P = "\<lambda>(y, s). \<exists>r\<in>set df. to_datetime s = Some (date_col r)"
  have keys: "map (\<lambda>e. (label_year e, exam_date e)) es = filter ?P cal"
    by (rule suneung_data_keys [OF es])
  let ?Q = "\<lambda>(y, s). \<not> (\<exists>r\<in>set df. to_datetime s = Some (date_col r))"
  have len: "length es = length (filter ?P cal)"
    using keys by (metis length_map)
  have Q: "filter (\<lambda>c. \<not> ?P c) cal = filter ?Q cal"
    by (rule filter_cong) auto
  have "length (filter ?P cal) + length (filter ?Q cal) = length cal"
    using sum_length_filter_compl [of ?P cal] unfolding Q .
  with len have "length es = length cal - length (filter ?Q cal)"
    by linarith
  with es keys show ?thesis by blast
qed

theorem annotator_skips_unmatched_witness:
  "\<exists>es. suneung_data nov13_df [(2020, ''2019-11-13''), (2021, ''2020-11-15''), (2022, ''2021-11-13'')] = Inr es \<and>
     map (\<lambda>e. (label_year e, exam_date e)) es = [(2020, ''2019-11-13''), (2022, ''2021-11-13'')] \<and>
     length es = 2"
  using annotator_skips_unmatched [of "[(2020, ''2019-11-13''), (2021, ''2020-11-15''), (2022, ''2021-11-13'')]" nov13_df]
  by (simp add: digit_def days_in_month_def day_data_def nov13_df_def mk_row_def)

lemma suneung_data_entry:
  "suneung_data df cal = Inr es \<Longrightarrow> e \<in> set es \<Longrightarrow>
     \<exists>yr ds dt r rs. to_datetime ds = Some dt \<and> day_data df dt = r # rs \<and>
        e = suneung_entry df yr ds dt r"
proof (induction cal arbitrary: es)
  case Nil
  then show ?case by simp
next
  case (Cons c cal)
  obtain yr ds where c: "c = (yr, ds)" by (cases c)
  from Cons.prems(1) c obtain dt where dt: "to_datetime ds = Some dt"
    by (auto split: option.splits)
  show ?case
  proof (cases "day_data df dt")
    case Nil
    with Cons.prems c dt have "suneung_data df cal = Inr es" by simp
    from Cons.IH [OF this Cons.prems(2)] show ?thesis .
  next
    case (Cons r rs)
    with Cons.prems(1) c dt obtain es' where
      es': "suneung_data df cal = Inr es'" and es: "es = suneung_entry df yr ds dt r # es'"
      by (auto split: sum.splits)
    from Cons.prems(2) es consider "e = suneung_entry df yr ds dt r" | "e \<in> set es'" by auto
    then show ?thesis
    proof cases
      case 1
      with dt Cons show ?thesis by blast
    next
      case 2
      from Cons.IH [OF es' 2] show ?thesis .
    qed
  qed
qed

lemma count_below_df:
  "length (filter (\<lambda>t. lt_f (Some t) (Some v)) (dropna (map (col tt) (same_day_data df m d)))) =
   length (filter (\<lambda>r. month (date_col r) = m \<and> day (date_col r) = d \<and>
                       lt_f (col tt r) (Some v)) df)"
  unfolding length_filter_dropna same_day_data_def filter_filter
  by (rule arg_cong [where f = length], rule filter_cong) (auto simp: lt_f_def split: option.splits)

lemma count_total_df:
  "length (dropna (map (col tt) (same_day_data df m d))) =
   length (filter (\<lambda>r. month (date_col r) = m \<and> day (date_col r) = d \<and> col tt r \<noteq> None) df)"
  unfolding length_dropna_filter same_day_data_def filter_filter
  by (rule arg_cong [where f = length], rule filter_cong) auto

lemma above_half:
  assumes "0 < n"
  shows "50 < real k / real n * 100 \<longleftrightarrow> n < 2 * k"
proof -
  have "50 < real k / real n * 100 \<longleftrightarrow> real n < 2 * real k"
    using assms by (simp add: field_simps)
  also have "\<dots> \<longleftrightarrow> real n < real (2 * k)" by simp
  also have "\<dots> \<longleftrightarrow> n < 2 * k" by (rule of_nat_less_iff)
  finally show ?thesis .
qed

lemma deviation_sign:
  "lt_f (Some 0) (sub_f (Some v) m) \<longleftrightarrow> lt_f m (Some v)"
  by (cases m) (simp_all add: sub_f_def lt_f_def)

text \<open>
  Against C7 as the specification words it (percentile above 50 exactly when the
  deviation is above 0): the two can disagree. In
  \<open>skewed_df\<close> the five values of 14 November are 0, 0, 0, 10 and 1, with mean 2.2.
  The calendar of the second dashboard has 2024-11-14, the day with the value 1: three
  of the five values lie strictly below it, so its percentile is 60, above 50, while
  its deviation from the mean is -1.2, below 0.
\<close>

theorem deviation_counterexample:
  "suneung_data skewed_df SUNEUNG_DATES =
     Inr [\<lparr>label_year = 2025, exam_date = ''2024-11-14'',
           e_avg_temp = Some 1, e_min_temp = Some (-2), e_max_temp = Some 5,
           e_hist_mean = Some (Some (11/5)), e_deviation = Some (Some (-6/5)),
           e_percentile = Percentile 60, e_year = 2025\<rparr>] \<and>
   (50::real) < 60 \<and> \<not> (0::real) < -6/5"
  by (simp add: SUNEUNG_DATES_def digit_def days_in_month_def day_data_def skewed_df_def mk_row_def
      suneung_entry_def get_historical_stats_def calculate_percentile_def same_day_data_def
      mean_col_def sub_f_def)

text \<open>
  C7, as it holds. The two quantities answer different questions about a record of the
  table whose average temperature is a number \<open>v\<close>, and each is decided on its own.
  The deviation is \<open>v\<close> minus the historical mean that the table reports, so it is
  above 0 exactly when \<open>v\<close> is above that mean. The percentile is a number, and it is
  above 50 exactly when more than half of the records of the same month and day whose
  average temperature is not missing have an average temperature strictly below \<open>v\<close>.
  Neither condition follows from the other.
\<close>

theorem deviation_and_percentile_sides:
  assumes "suneung_data df cal = Inr es" and "e \<in> set es" and "e_avg_temp e = Some v"
  shows "\<exists>dt p m.
     to_datetime (exam_date e) = Some dt \<and>
     e_percentile e = Percentile p \<and>
     e_hist_mean e = Some m \<and>
     e_deviation e = Some (sub_f (Some v) m) \<and>
     (lt_f (Some 0) (sub_f (Some v) m) \<longleftrightarrow> lt_f m (Some v)) \<and>
     (50 < p \<longleftrightarrow>
        length (filter (\<lambda>r. month (date_col r) = month dt \<and> day (date_col r) = day dt \<and>
                           avg_temp r \<noteq> None) df)
        < 2 * length (filter (\<lambda>r. month (date_col r) = month dt \<and> day (date_col r) = day dt \<and>
                                 lt_f (avg_temp r) (Some v)) df))"
proof -
  from suneung_data_entry [OF assms(1,2)] obtain yr ds dt r rs where
    dt: "to_datetime ds = Some dt" and dd: "day_data df dt = r # rs"
    and e: "e = suneung_entry df yr ds dt r" by blast
  let ?sd = "same_day_data df (month dt) (day dt)"
  let ?temps = "dropna (map (col AvgTemp) ?sd)"
  let ?k = "length (filter (\<lambda>t. lt_f (Some t) (Some v)) ?temps)"
  let ?p = "real ?k / real (length ?temps) * 100"
  from assms(3) have v: "avg_temp r = Some v" by (simp add: e suneung_entry_def Let_def)
  from dd have "r \<in> set (day_data df dt)" by simp
  then have r: "r \<in> set ?sd" by (auto simp: day_data_def same_day_data_def)
  then have "?sd \<noteq> []" by auto
  then obtain st where st: "get_historical_stats df (month dt) (day dt) = Some st"
    using get_historical_stats_None [of df "month dt" "day dt"] by auto
  from r v have mem: "v \<in> set ?temps" by (force simp: set_dropna)
  then have ne: "?temps \<noteq> []" by auto
  have key: "to_datetime (exam_date e) = Some dt" by (simp add: e dt)
  have pct: "e_percentile e = Percentile ?p"
    using calculate_percentile_Percentile [OF ne, of "Some v"]
    by (simp add: e suneung_entry_def Let_def st v)
  have hm: "e_hist_mean e = Some (avg_mean st)"
    by (simp add: e suneung_entry_def Let_def st)
  have dev: "e_deviation e = Some (sub_f (Some v) (avg_mean st))"
    by (simp add: e suneung_entry_def Let_def st v)
  have sign: "lt_f (Some 0) (sub_f (Some v) (avg_mean st)) \<longleftrightarrow> lt_f (avg_mean st) (Some v)"
    by (rule deviation_sign)
  have "0 < length ?temps" using ne by simp
  then have "50 < ?p \<longleftrightarrow> length ?temps < 2 * ?k" by (rule above_half)
  then have half: "50 < ?p \<longleftrightarrow>
        length (filter (\<lambda>r. month (date_col r) = month dt \<and> day (date_col r) = day dt \<and>
                           avg_temp r \<noteq> None) df)
        < 2 * length (filter (\<lambda>r. month (date_col r) = month dt \<and> day (date_col r) = day dt \<and>
                                 lt_f (avg_temp r) (Some v)) df)"
    unfolding count_below_df count_total_df by simp
  from key pct hm dev sign half show ?thesis by blast
qed

theorem deviation_and_percentile_sides_witness:
  "suneung_data skewed_df [(2024, ''2023-11-14'')] =
     Inr [\<lparr>label_year = 2024, exam_date = ''2023-11-14'',
           e_avg_temp = Some 10, e_min_temp = Some 6, e_max_temp = Some 15,
           e_hist_mean = Some (Some (11/5)), e_deviation = Some (Some (39/5)),
           e_percentile = Percentile 80, e_year = 2024\<rparr>] \<and>
   (\<exists>dt p m.
     to_datetime ''2023-11-14'' = Some dt \<and>
     Percentile 80 = Percentile p \<and>
     Some (Some (11/5)) = Some m \<and>
     Some (Some (39/5)) = Some (sub_f (Some 10) m) \<and>
     (lt_f (Some 0) (sub_f (Some 10) m) \<longleftrightarrow> lt_f m (Some 10)) \<and>
     (50 < p \<longleftrightarrow>
        length (filter (\<lambda>r. month (date_col r) = month dt \<and> day (date_col r) = day dt \<and>
                           avg_temp r \<noteq> None) skewed_df)
        < 2 * length (filter (\<lambda>r. month (date_col r) = month dt \<and> day (date_col r) = day dt \<and>
                                 lt_f (avg_temp r) (Some 10)) skewed_df)))"
proof -
  let ?e = "\<lparr>label_year = 2024, exam_date = ''2023-11-14'',
           e_avg_temp = Some 10, e_min_temp = Some 6, e_max_temp = Some 15,
           e_hist_mean = Some (Some (11/5)), e_deviation = Some (Some (39/5)),
           e_percentile = Percentile 80, e_year = 2024\<rparr>"
  have run: "suneung_data skewed_df [(2024, ''2023-11-14'')] = Inr [?e]"
    by (simp add: digit_def days_in_month_def day_data_def skewed_df_def mk_row_def
      suneung_entry_def get_historical_stats_def calculate_percentile_def same_day_data_def
      mean_col_def sub_f_def)
  have mem: "?e \<in> set [?e]" by simp
  have avg: "e_avg_temp ?e = Some 10" by simp
  have sides: "\<exists>dt p m.
     to_datetime ''2023-11-14'' = Some dt \<and>
     Percentile 80 = Percentile p \<and>
     Some (Some (11/5)) = Some m \<and>
     Some (Some (39/5)) = Some (sub_f (Some 10) m) \<and>
     (lt_f (Some 0) (sub_f (Some 10) m) \<longleftrightarrow> lt_f m (Some 10)) \<and>
     (50 < p \<longleftrightarrow>
        length (filter (\<lambda>r. month (date_col r) = month dt \<and> day (date_col r) = day dt \<and>
                           avg_temp r \<noteq> None) skewed_df)
        < 2 * length (filter (\<lambda>r. month (date_col r) = month dt \<and> day (date_col r) = day dt \<and>
                                 lt_f (avg_temp r) (Some 10)) skewed_df))"
    using deviation_and_percentile_sides [OF run mem avg] by (simp only: entry.select_convs)
  from run sides show ?thesis by (rule conjI)
qed

subsection \<open>The rank\<close>

lemma first_position_desc:
  "sorted (rev ys) \<Longrightarrow> x \<in> set ys \<Longrightarrow> first_position ys x = length (filter (\<lambda>y. x < y) ys)"
proof (induction ys)
  case Nil
  then show ?case by simp
next
  case (Cons y ys)
  from Cons.prems(1) have srt: "sorted (rev ys)" and ub: "\<forall>z\<in>set ys. z \<le> y"
    by (auto simp: sorted_append)
  show ?case
  proof (cases "y = x")
    case True
    with ub have "filter (\<lambda>z. x < z) ys = []"
      by (fastforce simp: filter_empty_conv)
    with True show ?thesis by simp
  next
    case False
    with Cons.prems(2) have mem: "x \<in> set ys" by simp
    with ub False have "x < y" by fastforce
    with False Cons.IH [OF srt mem] show ?thesis by simp
  qed
qed

lemma length_filter_rev_sort:
  "length (filter P (rev (sort xs))) = length (filter P xs)"
  by (simp add: filter_sort rev_filter [symmetric])

lemma first_position_rank:
  assumes "x \<in> set xs"
  shows "first_position (rev (sort xs)) x = length (filter (\<lambda>y. x < y) xs)"
proof -
  have "first_position (rev (sort xs)) x = length (filter (\<lambda>y. x < y) (rev (sort xs)))"
    by (rule first_position_desc) (simp_all add: assms)
  then show ?thesis by (simp only: length_filter_rev_sort)
qed

lemma rank_desc_min_nth:
  assumes "i < length ts" and "ts ! i = Some x"
  shows "rank_desc_min ts ! i = Some (real (1 + length (filter (\<lambda>t. lt_f (Some x) t) ts)))"
proof -
  from assms have "Some x \<in> set ts" by (metis nth_mem)
  then have mem: "x \<in> set (dropna ts)" by (simp add: set_dropna)
  have "length (filter (\<lambda>y. x < y) (dropna ts)) = length (filter (\<lambda>t. lt_f (Some x) t) ts)"
    using length_filter_dropna [of "\<lambda>y. x < y" id ts]
    by (simp add: lt_f_def)
  with first_position_rank [OF mem] assms show ?thesis
    by (simp add: rank_desc_min_def Let_def)
qed

lemma rank_missing:
  assumes "i < length (history_df df mo da)" and "avg_temp (history_df df mo da ! i) = None"
  shows "rank df mo da ! i = None"
  using assms by (simp add: rank_def rank_desc_min_def Let_def)

text \<open>
  C8. In the rank series of the first dashboard, a record of the same-day table whose
  average temperature is a number \<open>x\<close> has rank 1 plus the count of records of the
  table with a strictly greater average temperature, and every record of the table with
  the same value \<open>x\<close> has that same rank: equal values share the lowest rank of their
  group.
\<close>

theorem rank_competition:
  assumes "i < length (history_df df mo da)"
    and "avg_temp (history_df df mo da ! i) = Some x"
  shows "rank df mo da ! i =
           Some (real (1 + length (filter (\<lambda>r. lt_f (Some x) (avg_temp r)) (history_df df mo da)))) \<and>
         (\<forall>j < length (history_df df mo da).
            avg_temp (history_df df mo da ! j) = Some x \<longrightarrow> rank df mo da ! j = rank df mo da ! i)"
proof -
  let ?h = "history_df df mo da"
  let ?ts = "map avg_temp ?h"
  have cnt: "length (filter (\<lambda>t. lt_f (Some x) t) ?ts) = length (filter (\<lambda>r. lt_f (Some x) (avg_temp r)) ?h)"
    by (simp add: filter_map comp_def)
  have nth: "rank df mo da ! j = Some (real (1 + length (filter (\<lambda>r. lt_f (Some x) (avg_temp r)) ?h)))"
    if "j < length ?h" and "avg_temp (?h ! j) = Some x" for j
  proof -
    from that have "j < length ?ts" and "?ts ! j = Some x" by simp_all
    from rank_desc_min_nth [OF this] show ?thesis
      unfolding rank_def cnt .
  qed
  from nth [OF assms] nth show ?thesis by simp
qed

theorem rank_competition_witness:
  "rank skewed_df 11 14 ! 0 = Some 3 \<and> rank skewed_df 11 14 ! 1 = Some 3 \<and>
   rank skewed_df 11 14 ! 4 = Some 2"
  using rank_competition [of 0 skewed_df 11 14 0] rank_competition [of 4 skewed_df 11 14 1]
  by (simp add: history_df_def skewed_df_def mk_row_def)

end
